theory Spec2Isabelle
  imports Main
begin

section \<open>The Cypher query builder (class Neo4jQueryBuilder of query-builder.ts)\<close>

text \<open>
  The builder is a mutable object; every method is modelled as a function that takes the
  builder state and returns the state after the call (with the returned value, for the
  methods that return something other than the builder itself).

  JavaScript strings are modelled as \<open>string\<close>, one \<open>char\<close> for each code unit; an
  optional argument or an optional field is an \<open>option\<close> (\<open>None\<close> is \<open>undefined\<close>). A plain object (a property mapping, the
  parameter bag) and the \<open>Map\<close> of registered aliases are association lists in iteration
  order, whose keys are pairwise different in every value the program builds. The values
  stored under property names are never inspected by the builder, so their type is a
  parameter \<open>'v\<close>.
\<close>

subsection \<open>Primitives of the language\<close>

text \<open>\<open>Array.prototype.join\<close> on an array of strings.\<close>

fun js_join :: "string \<Rightarrow> string list \<Rightarrow> string" where
  "js_join sep [] = []"
| "js_join sep [x] = x"
| "js_join sep (x # y # ys) = x @ sep @ js_join sep (y # ys)"

text \<open>\<open>String.prototype.startsWith\<close>: \<open>startsWith s p\<close> is \<open>s.startsWith(p)\<close>.\<close>

fun startsWith :: "string \<Rightarrow> string \<Rightarrow> bool" where
  "startsWith s [] = True"
| "startsWith [] (p # ps) = False"
| "startsWith (c # cs) (p # ps) = (c = p \<and> startsWith cs ps)"

text \<open>\<open>String.prototype.endsWith\<close>, used by the tests of the builder.\<close>

definition endsWith :: "string \<Rightarrow> string \<Rightarrow> bool" where
  "endsWith s p = startsWith (rev s) (rev p)"

text \<open>The truthiness of an optional string: \<open>undefined\<close> and the empty string are falsy.\<close>

fun truthy :: "string option \<Rightarrow> bool" where
  "truthy None = False"
| "truthy (Some v) = (v \<noteq> [])"

text \<open>The decimal text of a non-negative integer, as a template literal prints it.\<close>

definition digit_char :: "nat \<Rightarrow> char" where
  "digit_char d = ''0123456789'' ! d"

function string_of_nat :: "nat \<Rightarrow> string" where
  "string_of_nat n =
     (if n < 10 then [digit_char n] else string_of_nat (n div 10) @ [digit_char (n mod 10)])"
  by pat_completeness auto
termination
  by (relation "measure (\<lambda>n. n)") auto

declare string_of_nat.simps [simp del]

text \<open>
  \<open>Map.prototype.set\<close> and the definition of an own property of an object: the value of
  an existing key is replaced where the key stands, a new key goes to the end.
\<close>

fun js_set :: "string \<Rightarrow> 'a \<Rightarrow> (string \<times> 'a) list \<Rightarrow> (string \<times> 'a) list" where
  "js_set k v [] = [(k, v)]"
| "js_set k v (p # ps) = (if fst p = k then (k, v) # ps else p # js_set k v ps)"

definition js_keys :: "(string \<times> 'a) list \<Rightarrow> string list" where
  "js_keys m = map fst m"

definition js_has :: "(string \<times> 'a) list \<Rightarrow> string \<Rightarrow> bool" where
  "js_has m k = (k \<in> set (js_keys m))"

text \<open>
  The assignment \<open>obj[k] = v\<close> on an object created by the literal \<open>{}\<close>. For every key
  but \<open>__proto__\<close> it defines the own property \<open>k\<close>, and the model is exact there. The key
  \<open>__proto__\<close> is the accessor inherited from \<open>Object.prototype\<close>: the assignment calls its
  setter, which ignores a value that is neither an object nor \<open>null\<close>, and the object gets
  no own property; that is what the model keeps. For \<open>null\<close> or an object the setter
  replaces the prototype of \<open>obj\<close>, and what a later assignment to \<open>__proto__\<close> does then
  depends on the value (after \<open>null\<close> it defines an own property). The values are not
  inspected here, so the model does not follow the code on a mapping with a parameter key
  \<open>__proto__\<close>, and nothing below is stated about the parameters of such a mapping.
\<close>

definition js_assign :: "string \<Rightarrow> 'a \<Rightarrow> (string \<times> 'a) list \<Rightarrow> (string \<times> 'a) list" where
  "js_assign k v obj = (if k = ''__proto__'' then obj else js_set k v obj)"

text \<open>
  The object literal \<open>{ ...a, ...b }\<close>: the own properties of \<open>a\<close>, then those of \<open>b\<close>,
  are defined on a new object in their iteration order.
\<close>

definition js_spread :: "(string \<times> 'a) list \<Rightarrow> (string \<times> 'a) list \<Rightarrow> (string \<times> 'a) list" where
  "js_spread a b = fold (\<lambda>(k, v). js_set k v) (a @ b) []"

text \<open>
  Reading \<open>xs[i]\<close> and appending it to a string: an index past the end reads
  \<open>undefined\<close>, which a string concatenation prints as the text \<open>undefined\<close>.
\<close>

definition js_index :: "string list \<Rightarrow> nat \<Rightarrow> string" where
  "js_index xs i = (if i < length xs then xs ! i else ''undefined'')"

subsection \<open>The data model\<close>

text \<open>
  \<open>NodeSelector\<close>: the optional label, variable and properties of a node. The attributes
  of a relationship (\<open>Partial<RelationshipRef>\<close>) have the same three optional fields.
\<close>

record 'v NodeSelector =
  label :: "string option"
  variable :: "string option"
  properties :: "(string \<times> 'v) list option"

datatype RelationshipDirections = From | To | Both | NoDirection

text \<open>
  The fields of the class. An entry of \<open>nodes\<close> maps an alias to the pair
  \<open>(nodeVar, label)\<close>.
\<close>

record 'v Neo4jQueryBuilder =
  lastNodeVar :: string
  lastNodeVarIndex :: nat
  nodes :: "(string \<times> (string \<times> string)) list"
  params :: "(string \<times> 'v) list"
  query :: "string list"
  return :: string

definition nodeVarIndex :: "string list" where
  "nodeVarIndex = map (\<lambda>c. [c]) ''abcdefghijklmnopqrstuvwxyz''"

text \<open>The state of \<open>new Neo4jQueryBuilder()\<close>.\<close>

definition new_builder :: "'v Neo4jQueryBuilder" where
  "new_builder =
     \<lparr>lastNodeVar = [], lastNodeVarIndex = 0, nodes = [], params = [], query = [],
      return = []\<rparr>"

subsection \<open>The private methods\<close>

text \<open>\<open>similarNodes\<close>: the registered aliases that start with \<open>nodeVar\<close>.\<close>

definition similarNodes :: "'v Neo4jQueryBuilder \<Rightarrow> string \<Rightarrow> string list" where
  "similarNodes s nodeVar = filter (\<lambda>node. startsWith node nodeVar) (js_keys (nodes s))"

text \<open>
  The branch of \<open>generateNodeVar\<close> taken when no variable is given: the next name of the
  alphabet, and the counters moved on.
\<close>

definition nextNodeVar :: "'v Neo4jQueryBuilder \<Rightarrow> string \<times> 'v Neo4jQueryBuilder" where
  "nextNodeVar s =
     (let nodeVar = lastNodeVar s @ js_index nodeVarIndex (lastNodeVarIndex s);
          s1 = s\<lparr>lastNodeVarIndex := lastNodeVarIndex s + 1\<rparr>
      in if lastNodeVarIndex s1 > length nodeVarIndex - 1
         then (let s2 = s1\<lparr>lastNodeVarIndex := 0\<rparr>
               in (nodeVar,
                   s2\<lparr>lastNodeVar :=
                        lastNodeVar s2 @ js_index nodeVarIndex (lastNodeVarIndex s2)\<rparr>))
         else (nodeVar, s1))"

definition generateNodeVar ::
  "string option \<Rightarrow> 'v Neo4jQueryBuilder \<Rightarrow> string \<times> 'v Neo4jQueryBuilder" where
  "generateNodeVar var s =
     (let (nodeVar, s1) =
            (case var of
               None \<Rightarrow> nextNodeVar s
             | Some v \<Rightarrow> if v = [] then nextNodeVar s else (v, s))
      in if js_has (nodes s1) nodeVar
         then (nodeVar @ ''_'' @ string_of_nat (length (similarNodes s1 nodeVar)), s1)
         else (nodeVar, s1))"

text \<open>\<open>getNodeVarOrGenerate\<close>: \<open>nodeVar ?? this.generateNodeVar()\<close>.\<close>

definition getNodeVarOrGenerate ::
  "string option \<Rightarrow> 'v Neo4jQueryBuilder \<Rightarrow> string \<times> 'v Neo4jQueryBuilder" where
  "getNodeVarOrGenerate nodeVar s =
     (case nodeVar of Some v \<Rightarrow> (v, s) | None \<Rightarrow> generateNodeVar None s)"

text \<open>The replacement of \<open>/[^a-zA-Z0-9]/g\<close> by an underscore.\<close>

definition alphanumeric :: "char \<Rightarrow> bool" where
  "alphanumeric c =
     (c \<in> set (''abcdefghijklmnopqrstuvwxyz'' @ ''ABCDEFGHIJKLMNOPQRSTUVWXYZ'' @ ''0123456789''))"

definition sanitize :: "string \<Rightarrow> string" where
  "sanitize key = map (\<lambda>c. if alphanumeric c then c else CHR ''_'') key"

text \<open>
  The loop of \<open>generatePropertySelectors\<close> over \<open>Object.entries(record)\<close>: the state of
  the loop is the array of rendered entries and the object of parameters.
\<close>

fun propertyLoop ::
  "string \<Rightarrow> (string \<times> 'v) list \<Rightarrow> string list \<times> (string \<times> 'v) list
     \<Rightarrow> string list \<times> (string \<times> 'v) list" where
  "propertyLoop nodeVar [] acc = acc"
| "propertyLoop nodeVar ((key, val) # rest) (parameterizedStrArr, ps) =
     (let sanitizedKey = sanitize key;
          paramKey = nodeVar @ ''_'' @ sanitizedKey
      in propertyLoop nodeVar rest
           (parameterizedStrArr @ [key @ '': $'' @ paramKey], js_assign paramKey val ps))"

definition generatePropertySelectors ::
  "string \<Rightarrow> (string \<times> 'v) list \<Rightarrow> string \<times> (string \<times> 'v) list" where
  "generatePropertySelectors nodeVar record =
     (if length (js_keys record) = 0 then ([], [])
      else (let (parameterizedStrArr, ps) = propertyLoop nodeVar record ([], [])
            in ('' {'' @ js_join '', '' parameterizedStrArr @ ''}'', ps)))"

subsection \<open>The public methods\<close>

text \<open>\<open>build\<close> reads the state; it is returned with the result, unchanged.\<close>

definition build ::
  "'v Neo4jQueryBuilder \<Rightarrow> (string \<times> (string \<times> 'v) list) \<times> 'v Neo4jQueryBuilder" where
  "build s =
     (let nodeKeys = js_keys (nodes s)
      in ((js_join '' ''
             (query s @ [if return s \<noteq> [] then return s
                         else ''RETURN '' @ js_join '', '' nodeKeys]),
           params s),
          s))"

definition buildNodeReference ::
  "string \<Rightarrow> string option \<Rightarrow> (string \<times> 'v) list option \<Rightarrow> 'v Neo4jQueryBuilder
     \<Rightarrow> string \<times> 'v Neo4jQueryBuilder" where
  "buildNodeReference nodeVar lbl props s =
     (let lbl1 = (case lbl of None \<Rightarrow> [] | Some l \<Rightarrow> l);
          props1 = (case props of None \<Rightarrow> [] | Some r \<Rightarrow> r);
          (parameterizedString, parameters) = generatePropertySelectors nodeVar props1;
          s1 = s\<lparr>params := js_spread (params s) parameters\<rparr>
      in (nodeVar @ (if lbl1 \<noteq> [] then '':'' @ lbl1 else []) @ parameterizedString, s1))"

definition buildRelationshipReference ::
  "'v NodeSelector \<Rightarrow> 'v NodeSelector \<Rightarrow> RelationshipDirections option
     \<Rightarrow> 'v NodeSelector option \<Rightarrow> 'v Neo4jQueryBuilder \<Rightarrow> string \<times> 'v Neo4jQueryBuilder" where
  "buildRelationshipReference source target dir attrs s =
     (let direction = (case dir of None \<Rightarrow> NoDirection | Some d \<Rightarrow> d);
          attributes =
            (case attrs of
               None \<Rightarrow> \<lparr>label = None, variable = None, properties = None\<rparr>
             | Some a \<Rightarrow> a);
          (sourceVar, s1) = getNodeVarOrGenerate (variable source) s;
          (sourceNode, s2) = buildNodeReference sourceVar (label source) (properties source) s1;
          sourceRef = ''('' @ sourceNode @ '')'';
          (targetVar, s3) = getNodeVarOrGenerate (variable target) s2;
          (targetNode, s4) = buildNodeReference targetVar (label target) (properties target) s3;
          targetRef = ''('' @ targetNode @ '')'';
          (relationshipVar, s5) = generateNodeVar (variable attributes) s4;
          (relationshipPattern, s6) =
            (if truthy (label attributes) \<or> truthy (variable attributes)
             then (let (relationshipRef, t) =
                         buildNodeReference relationshipVar (label attributes)
                           (properties attributes) s5
                   in (''['' @ relationshipRef @ '']'', t))
             else ([], s5));
          arrowDirection =
            (case direction of
               From \<Rightarrow> ''-'' @ relationshipPattern @ ''->''
             | To \<Rightarrow> ''<-'' @ relationshipPattern @ ''-''
             | Both \<Rightarrow> ''-'' @ relationshipPattern @ ''-''
             | NoDirection \<Rightarrow> ''-'' @ relationshipPattern @ ''-'');
          s7 = (if relationshipPattern \<noteq> []
                then s6\<lparr>nodes :=
                          js_set relationshipVar
                            (relationshipVar,
                             case label attributes of None \<Rightarrow> [] | Some l \<Rightarrow> l)
                            (nodes s6)\<rparr>
                else s6)
      in (sourceRef @ arrowDirection @ targetRef, s7))"

definition createNode ::
  "string \<Rightarrow> (string \<times> 'v) list option \<Rightarrow> string option \<Rightarrow> 'v Neo4jQueryBuilder
     \<Rightarrow> 'v Neo4jQueryBuilder" where
  "createNode lbl props var s =
     (let (nodeVar, s1) = generateNodeVar var s;
          s2 = s1\<lparr>nodes := js_set nodeVar (nodeVar, lbl) (nodes s1)\<rparr>;
          (ref, s3) = buildNodeReference nodeVar (Some lbl) props s2
      in s3\<lparr>query := query s3 @ [''MERGE ('' @ ref @ '')'']\<rparr>)"

definition customReturn :: "string list \<Rightarrow> 'v Neo4jQueryBuilder \<Rightarrow> 'v Neo4jQueryBuilder" where
  "customReturn ns s = s\<lparr>return := ''RETURN '' @ js_join '','' ns\<rparr>"

definition join ::
  "string \<Rightarrow> string \<Rightarrow> RelationshipDirections option \<Rightarrow> 'v NodeSelector option
     \<Rightarrow> 'v Neo4jQueryBuilder \<Rightarrow> 'v Neo4jQueryBuilder" where
  "join sourceNode targetNode dir attrs s =
     (let (queryStr, s1) =
            buildRelationshipReference
              \<lparr>label = None, variable = Some sourceNode, properties = None\<rparr>
              \<lparr>label = None, variable = Some targetNode, properties = None\<rparr>
              dir attrs s
      in s1\<lparr>query := query s1 @ [''MATCH '' @ queryStr]\<rparr>)"

definition select ::
  "string \<Rightarrow> string option \<Rightarrow> (string \<times> 'v) list option \<Rightarrow> 'v Neo4jQueryBuilder
     \<Rightarrow> 'v Neo4jQueryBuilder" where
  "select lbl var flt s =
     (let (node, s1) = generateNodeVar var s;
          s2 = s1\<lparr>nodes := js_set node (node, lbl) (nodes s1)\<rparr>;
          (ref, s3) = buildNodeReference node (Some lbl) flt s2
      in s3\<lparr>query := query s3 @ [''MATCH ('' @ ref @ '')'']\<rparr>)"

subsection \<open>Sequences of generator calls\<close>

text \<open>
  A run of calls of \<open>generateNodeVar\<close> with no variable given, on one builder. After each
  call the caller either registers the alias under a label, as \<open>select\<close> and \<open>createNode\<close>
  do (\<open>Some lbl\<close>), or leaves the table of aliases alone, as \<open>buildRelationshipReference\<close>
  does for the source, the target and an unused relationship (\<open>None\<close>). The result is the
  list of the aliases returned, in the order of the calls.
\<close>

fun generator_calls :: "string option list \<Rightarrow> 'v Neo4jQueryBuilder \<Rightarrow> string list" where
  "generator_calls [] s = []"
| "generator_calls (reg # regs) s =
     (let (nodeVar, s1) = generateNodeVar None s;
          s2 = (case reg of
                  None \<Rightarrow> s1
                | Some lbl \<Rightarrow> s1\<lparr>nodes := js_set nodeVar (nodeVar, lbl) (nodes s1)\<rparr>)
      in nodeVar # generator_calls regs s2)"

text \<open>
  The \<open>m\<close>-th name of the generator, counted from 0, and the states in which exactly the
  names before the \<open>n\<close>-th have been handed out.
\<close>

definition auto_name :: "nat \<Rightarrow> string" where
  "auto_name m = replicate (m div 26) CHR ''a'' @ js_index nodeVarIndex (m mod 26)"

definition auto_state :: "nat \<Rightarrow> 'v Neo4jQueryBuilder \<Rightarrow> bool" where
  "auto_state n s \<longleftrightarrow>
     lastNodeVar s = replicate (n div 26) CHR ''a'' \<and> lastNodeVarIndex s = n mod 26 \<and>
     set (js_keys (nodes s)) \<subseteq> auto_name ` {..<n}"

section \<open>Facts about the primitives\<close>

lemma js_keys_js_set: "set (js_keys (js_set k v m)) = insert k (set (js_keys m))"
  by (induction m) (auto simp: js_keys_def)





lemma js_keys_js_set_new:
  "k \<notin> set (js_keys m) \<Longrightarrow> js_keys (js_set k v m) = js_keys m @ [k]"
  by (induction m) (auto simp: js_keys_def)

lemma js_keys_js_set_old:
  "k \<in> set (js_keys m) \<Longrightarrow> js_keys (js_set k v m) = js_keys m"
  by (induction m) (auto simp: js_keys_def)

lemma startsWith_append: "startsWith (p @ s) p"
  by (induction p) auto

lemma endsWith_append: "endsWith (s @ p) p"
  by (simp add: endsWith_def startsWith_append)

lemma js_join_snoc: "\<exists>pre. js_join sep (xs @ [x]) = pre @ x"
proof (induction xs rule: js_join.induct[of _ sep])
  case (1 sep)
  then show ?case by simp
next
  case (2 sep y)
  then show ?case by simp
next
  case (3 sep a b ys)
  then show ?case by (cases "ys @ [x]") auto
qed

section \<open>The generator of names\<close>

lemma length_nodeVarIndex: "length nodeVarIndex = 26"
  by (simp add: nodeVarIndex_def)

lemma distinct_nodeVarIndex: "distinct nodeVarIndex"
  by (simp add: nodeVarIndex_def)

lemma length_js_index: "i < 26 \<Longrightarrow> length (js_index nodeVarIndex i) = 1"
proof -
  assume "i < 26"
  then have "nodeVarIndex ! i \<in> set nodeVarIndex"
    by (simp add: length_nodeVarIndex)
  moreover have "\<forall>x \<in> set nodeVarIndex. length x = 1"
    by (simp add: nodeVarIndex_def)
  ultimately show ?thesis
    using \<open>i < 26\<close> by (simp add: js_index_def length_nodeVarIndex)
qed

lemma js_index_0: "js_index nodeVarIndex 0 = ''a''"
  by (simp add: js_index_def nodeVarIndex_def)

lemma length_auto_name: "length (auto_name m) = Suc (m div 26)"
  by (simp add: auto_name_def length_js_index)

lemma auto_name_inj: "auto_name m = auto_name m' \<Longrightarrow> m = m'"
proof -
  assume eq: "auto_name m = auto_name m'"
  then have "length (auto_name m) = length (auto_name m')" by simp
  then have d: "m div 26 = m' div 26" by (simp add: length_auto_name)
  with eq have "js_index nodeVarIndex (m mod 26) = js_index nodeVarIndex (m' mod 26)"
    by (simp add: auto_name_def)
  then have "nodeVarIndex ! (m mod 26) = nodeVarIndex ! (m' mod 26)"
    by (simp add: js_index_def length_nodeVarIndex)
  then have "m mod 26 = m' mod 26"
    using distinct_nodeVarIndex by (simp add: nth_eq_iff_index_eq length_nodeVarIndex)
  with d show "m = m'" by (metis div_mult_mod_eq)
qed

lemma nextNodeVar_auto:
  assumes "auto_state n s"
  shows "fst (nextNodeVar s) = auto_name n"
    and "lastNodeVar (snd (nextNodeVar s)) = replicate (Suc n div 26) CHR ''a''"
    and "lastNodeVarIndex (snd (nextNodeVar s)) = Suc n mod 26"
    and "nodes (snd (nextNodeVar s)) = nodes s"
proof -
  have a: "lastNodeVar s = replicate (n div 26) CHR ''a''" "lastNodeVarIndex s = n mod 26"
    using assms by (simp_all add: auto_state_def)
  show "fst (nextNodeVar s) = auto_name n"
    by (simp add: nextNodeVar_def Let_def a auto_name_def)
  show "nodes (snd (nextNodeVar s)) = nodes s"
    by (simp add: nextNodeVar_def Let_def)
  show "lastNodeVar (snd (nextNodeVar s)) = replicate (Suc n div 26) CHR ''a''"
  proof (cases "n mod 26 = 25")
    case True
    then have "Suc n div 26 = Suc (n div 26)" by (simp add: div_Suc mod_Suc)
    with True show ?thesis
      by (simp add: nextNodeVar_def Let_def a length_nodeVarIndex js_index_0 replicate_append_same)
  next
    case False
    have "n mod 26 < 26" by simp
    with False have "Suc n div 26 = n div 26" "n mod 26 < 25"
      by (simp_all add: div_Suc mod_Suc)
    then show ?thesis
      by (simp add: nextNodeVar_def Let_def a length_nodeVarIndex)
  qed
  show "lastNodeVarIndex (snd (nextNodeVar s)) = Suc n mod 26"
  proof (cases "n mod 26 = 25")
    case True
    then have "Suc n mod 26 = 0" by (simp add: mod_Suc)
    with True show ?thesis
      by (simp add: nextNodeVar_def Let_def a length_nodeVarIndex)
  next
    case False
    have "n mod 26 < 26" by simp
    with False have "Suc n mod 26 = Suc (n mod 26)" "n mod 26 < 25"
      by (simp_all add: mod_Suc)
    then show ?thesis
      by (simp add: nextNodeVar_def Let_def a length_nodeVarIndex)
  qed
qed

lemma generateNodeVar_auto:
  assumes "auto_state n s"
  shows "fst (generateNodeVar None s) = auto_name n"
    and "auto_state (Suc n) (snd (generateNodeVar None s))"
    and "auto_state (Suc n)
           (snd (generateNodeVar None s)
              \<lparr>nodes := js_set (auto_name n) x (nodes (snd (generateNodeVar None s)))\<rparr>)"
proof -
  have keys: "set (js_keys (nodes s)) \<subseteq> auto_name ` {..<n}"
    using assms by (simp add: auto_state_def)
  have "auto_name n \<notin> auto_name ` {..<n}"
  proof
    assume "auto_name n \<in> auto_name ` {..<n}"
    then obtain m where "m < n" "auto_name n = auto_name m" by auto
    then show False using auto_name_inj [of n m] by simp
  qed
  with keys have fresh: "\<not> js_has (nodes (snd (nextNodeVar s))) (fst (nextNodeVar s))"
    using nextNodeVar_auto(1,4) [OF assms] by (auto simp: js_has_def)
  have g: "generateNodeVar None s = nextNodeVar s"
  proof (cases "nextNodeVar s")
    case (Pair v t)
    with fresh show ?thesis by (simp add: generateNodeVar_def)
  qed
  show "fst (generateNodeVar None s) = auto_name n"
    using g nextNodeVar_auto [OF assms] by simp
  have sub: "auto_name ` {..<n} \<subseteq> auto_name ` {..<Suc n}" by auto
  show "auto_state (Suc n) (snd (generateNodeVar None s))"
    using g nextNodeVar_auto [OF assms] keys sub by (auto simp: auto_state_def)
  show "auto_state (Suc n)
           (snd (generateNodeVar None s)
              \<lparr>nodes := js_set (auto_name n) x (nodes (snd (generateNodeVar None s)))\<rparr>)"
    using g nextNodeVar_auto [OF assms] keys sub
    by (auto simp: auto_state_def js_keys_js_set)
qed

lemma generator_calls_auto:
  "auto_state n s \<Longrightarrow> generator_calls regs s = map auto_name [n ..< n + length regs]"
proof (induction regs arbitrary: n s)
  case Nil
  then show ?case by simp
next
  case (Cons reg regs)
  obtain v s1 where g: "generateNodeVar None s = (v, s1)" by (cases "generateNodeVar None s")
  from generateNodeVar_auto [OF Cons.prems] g
  have v: "v = auto_name n" and s1: "auto_state (Suc n) s1"
    and s2: "\<And>x. auto_state (Suc n) (s1\<lparr>nodes := js_set (auto_name n) x (nodes s1)\<rparr>)"
    by simp_all
  have "generator_calls regs
          (case reg of None \<Rightarrow> s1
           | Some lbl \<Rightarrow> s1\<lparr>nodes := js_set (auto_name n) (auto_name n, lbl) (nodes s1)\<rparr>)
        = map auto_name [Suc n ..< Suc n + length regs]"
    by (rule Cons.IH) (simp add: s1 s2 split: option.split)
  moreover have "[n ..< n + length (reg # regs)] = n # [Suc n ..< Suc n + length regs]"
    by (simp add: upt_conv_Cons del: upt_Suc)
  ultimately show ?case
    by (simp add: g v del: upt_Suc)
qed

lemma auto_state_new_builder: "auto_state 0 new_builder"
  by (simp add: auto_state_def new_builder_def js_keys_def)

lemma generator_calls_first:
  "generator_calls (replicate 28 None) (new_builder :: 'v Neo4jQueryBuilder) =
     [''a'', ''b'', ''c'', ''d'', ''e'', ''f'', ''g'', ''h'', ''i'', ''j'', ''k'', ''l'', ''m'',
      ''n'', ''o'', ''p'', ''q'', ''r'', ''s'', ''t'', ''u'', ''v'', ''w'', ''x'', ''y'', ''z'',
      ''aa'', ''ab'']"
  by code_simp

section \<open>The table of aliases is left alone by the private helpers\<close>

lemma nodes_nextNodeVar: "nodes (snd (nextNodeVar s)) = nodes s"
  by (simp add: nextNodeVar_def Let_def)

lemma nodes_generateNodeVar: "nodes (snd (generateNodeVar var s)) = nodes s"
  by (simp add: generateNodeVar_def nodes_nextNodeVar split: prod.splits option.splits)
     (metis nodes_nextNodeVar snd_conv)

lemma nodes_getNodeVarOrGenerate: "nodes (snd (getNodeVarOrGenerate var s)) = nodes s"
  by (simp add: getNodeVarOrGenerate_def nodes_generateNodeVar split: option.splits)

lemma nodes_buildNodeReference: "nodes (snd (buildNodeReference v l p s)) = nodes s"
  by (simp add: buildNodeReference_def Let_def split: prod.splits)


section \<open>The serializer of properties\<close>

text \<open>
  The sanitized key has the length of the key; a letter of \<open>a-z\<close> or \<open>A-Z\<close> and a digit
  stay, every other character becomes an underscore.
\<close>

lemma length_sanitize: "length (sanitize key) = length key"
  by (simp add: sanitize_def)

lemma sanitize_nth:
  "i < length key \<Longrightarrow>
   sanitize key ! i =
     (if key ! i \<in> set ''abcdefghijklmnopqrstuvwxyzABCDEFGHIJKLMNOPQRSTUVWXYZ0123456789''
      then key ! i else CHR ''_'')"
  by (simp add: sanitize_def alphanumeric_def)




section \<open>Properties\<close>

text \<open>
  C1. On a fresh builder, \<open>select("Car", "car", {id: 1})\<close>, then \<open>customReturn("car")\<close>,
  then \<open>build()\<close> returns the query \<open>MATCH (car:Car {id: $car_id}) RETURN car\<close> with the
  parameters \<open>{car_id: 1}\<close>.
\<close>

theorem select_customReturn_build:
  "fst (build (customReturn [''car'']
          (select ''Car'' (Some ''car'') (Some [(''id'', 1 :: int)]) new_builder))) =
     (''MATCH (car:Car {id: $car_id}) RETURN car'', [(''car_id'', 1)])"
  by code_simp

text \<open>
  C2. The alias returned by \<open>generateNodeVar\<close> is meant not to be a key of \<open>nodes\<close>
  when it is returned. The suffix is the number of registered aliases that start with
  the requested one, and the suffixed name is not looked up again: after
  \<open>select("Car", "car")\<close> and \<open>select("Car", "car_2")\<close>, the request for \<open>car\<close> finds two
  such aliases and returns \<open>car_2\<close>, which is registered. A third
  \<open>select("Car", "car")\<close> then writes its node over the entry of \<open>car_2\<close> and matches
  \<open>car_2\<close> a second time.
\<close>

theorem generateNodeVar_returns_registered:
  "(let s = select ''Car'' (Some ''car_2'') None
              (select ''Car'' (Some ''car'') None (new_builder :: int Neo4jQueryBuilder));
        (alias, s') = generateNodeVar (Some ''car'') s;
        s3 = select ''Car'' (Some ''car'') None s
    in js_keys (nodes s) = [''car'', ''car_2''] \<and>
       alias = ''car_2'' \<and> js_has (nodes s') alias \<and>
       js_keys (nodes s3) = [''car'', ''car_2''] \<and>
       query s3 = [''MATCH (car:Car)'', ''MATCH (car_2:Car)'', ''MATCH (car_2:Car)''])"
  by code_simp

text \<open>
  C3, as the code has it. When no custom return clause has been set, the query that
  \<open>build()\<close> returns is the committed clauses joined by a space and then the clause
  \<open>RETURN\<close> with every registered alias, in registration order, joined by a comma and a
  space; after \<open>select("Car", "car")\<close> and \<open>select("Property", "prop")\<close> the query ends
  with \<open>RETURN car, prop\<close>.
\<close>

theorem build_default_return:
  "(return s = [] \<longrightarrow>
      fst (fst (build s)) =
        js_join '' '' (query s @ [''RETURN '' @ js_join '', '' (js_keys (nodes s))]) \<and>
      endsWith (fst (fst (build s))) (''RETURN '' @ js_join '', '' (js_keys (nodes s)))) \<and>
   fst (fst (build (select ''Property'' (Some ''prop'') None
                     (select ''Car'' (Some ''car'') None
                        (new_builder :: 'v Neo4jQueryBuilder))))) =
     ''MATCH (car:Car) MATCH (prop:Property) RETURN car, prop''"
proof -
  have "endsWith (js_join '' '' (query s @ [''RETURN '' @ js_join '', '' (js_keys (nodes s))]))
          (''RETURN '' @ js_join '', '' (js_keys (nodes s)))"
    using js_join_snoc [of "'' ''" "query s" "''RETURN '' @ js_join '', '' (js_keys (nodes s))"]
    by (auto simp: endsWith_append simp del: append.simps)
  then have "return s = [] \<longrightarrow>
      fst (fst (build s)) =
        js_join '' '' (query s @ [''RETURN '' @ js_join '', '' (js_keys (nodes s))]) \<and>
      endsWith (fst (fst (build s))) (''RETURN '' @ js_join '', '' (js_keys (nodes s)))"
    by (simp add: build_def)
  moreover have "fst (fst (build (select ''Property'' (Some ''prop'') None
                     (select ''Car'' (Some ''car'') None
                        (new_builder :: 'v Neo4jQueryBuilder))))) =
     ''MATCH (car:Car) MATCH (prop:Property) RETURN car, prop''"
    by code_simp
  ultimately show ?thesis by blast
qed

text \<open>The statement at the builder of the two selections.\<close>

theorem build_default_return_witness:
  "return (select ''Property'' (Some ''prop'') None
             (select ''Car'' (Some ''car'') None (new_builder :: int Neo4jQueryBuilder))) = [] \<and>
   endsWith
     (fst (fst (build (select ''Property'' (Some ''prop'') None
                         (select ''Car'' (Some ''car'') None
                            (new_builder :: int Neo4jQueryBuilder))))))
     ''RETURN car, prop''"
proof -
  let ?s = "select ''Property'' (Some ''prop'') None
             (select ''Car'' (Some ''car'') None (new_builder :: int Neo4jQueryBuilder))"
  have h: "return ?s = []" by code_simp
  have k: "''RETURN '' @ js_join '', '' (js_keys (nodes ?s)) = ''RETURN car, prop''"
    by code_simp
  from build_default_return [of ?s] h
  have "endsWith (fst (fst (build ?s))) (''RETURN '' @ js_join '', '' (js_keys (nodes ?s)))"
    by blast
  with h k show ?thesis by simp
qed

text \<open>
  C3 as the specification words it asks for \<open>RETURN car,prop\<close>, with no space after the
  comma. That is the separator of \<open>customReturn\<close>; the default clause is joined with a
  comma and a space.
\<close>

theorem default_return_counterexample:
  "fst (fst (build (select ''Property'' (Some ''prop'') None
                     (select ''Car'' (Some ''car'') None
                        (new_builder :: int Neo4jQueryBuilder))))) =
     ''MATCH (car:Car) MATCH (prop:Property) RETURN car, prop'' \<and>
   \<not> endsWith
       (fst (fst (build (select ''Property'' (Some ''prop'') None
                           (select ''Car'' (Some ''car'') None
                              (new_builder :: int Neo4jQueryBuilder))))))
       ''RETURN car,prop''"
  by code_simp




text \<open>
  C5, as the code has it. When the attributes of the relationship are absent, or have
  neither a label nor a variable, the reference is the source node in parentheses, a bare
  arrow and the target node in parentheses, and the table of registered aliases is as it
  was before the call. The bare arrow is \<open>-->\<close> for the direction \<open>from\<close>, \<open><--\<close> for
  \<open>to\<close>, and \<open>--\<close> for \<open>both\<close>, \<open>none\<close> and a direction that is not given.
\<close>

theorem bare_relationship_arrow:
  assumes "case attrs of None \<Rightarrow> True | Some a \<Rightarrow> label a = None \<and> variable a = None"
  shows "let (sourceVar, s1) = getNodeVarOrGenerate (variable source) s;
             (sourceNode, s2) =
               buildNodeReference sourceVar (label source) (properties source) s1;
             (targetVar, s3) = getNodeVarOrGenerate (variable target) s2;
             (targetNode, s4) =
               buildNodeReference targetVar (label target) (properties target) s3;
             (ref, s') = buildRelationshipReference source target dir attrs s
         in ref = ''('' @ sourceNode @ '')'' @
                  (case dir of Some From \<Rightarrow> ''-->'' | Some To \<Rightarrow> ''<--'' | _ \<Rightarrow> ''--'') @
                  ''('' @ targetNode @ '')'' \<and>
            nodes s' = nodes s"
proof -
  define attributes where
    "attributes = (case attrs of
                     None \<Rightarrow> \<lparr>label = None, variable = None, properties = None\<rparr>
                   | Some a \<Rightarrow> a)"
  have a: "label attributes = None" "variable attributes = None"
    using assms by (simp_all add: attributes_def split: option.splits)
  obtain sourceVar s1 where g1: "getNodeVarOrGenerate (variable source) s = (sourceVar, s1)"
    by (cases "getNodeVarOrGenerate (variable source) s")
  obtain sourceNode s2 where
    g2: "buildNodeReference sourceVar (label source) (properties source) s1 = (sourceNode, s2)"
    by (cases "buildNodeReference sourceVar (label source) (properties source) s1")
  obtain targetVar s3 where g3: "getNodeVarOrGenerate (variable target) s2 = (targetVar, s3)"
    by (cases "getNodeVarOrGenerate (variable target) s2")
  obtain targetNode s4 where
    g4: "buildNodeReference targetVar (label target) (properties target) s3 = (targetNode, s4)"
    by (cases "buildNodeReference targetVar (label target) (properties target) s3")
  obtain relationshipVar s5 where g5: "generateNodeVar None s4 = (relationshipVar, s5)"
    by (cases "generateNodeVar None s4 :: string \<times> 'a Neo4jQueryBuilder")
  have "nodes s1 = nodes s"
    using nodes_getNodeVarOrGenerate [of "variable source" s] by (simp add: g1)
  moreover have "nodes s2 = nodes s1"
    using nodes_buildNodeReference [of sourceVar "label source" "properties source" s1]
    by (simp add: g2)
  moreover have "nodes s3 = nodes s2"
    using nodes_getNodeVarOrGenerate [of "variable target" s2] by (simp add: g3)
  moreover have "nodes s4 = nodes s3"
    using nodes_buildNodeReference [of targetVar "label target" "properties target" s3]
    by (simp add: g4)
  moreover have "nodes s5 = nodes s4"
    using nodes_generateNodeVar [of None s4] by (simp add: g5)
  ultimately have n: "nodes s5 = nodes s" by simp
  have r: "buildRelationshipReference source target dir attrs s =
        (''('' @ sourceNode @ '')'' @
           (case dir of Some From \<Rightarrow> ''-->'' | Some To \<Rightarrow> ''<--'' | _ \<Rightarrow> ''--'') @
           ''('' @ targetNode @ '')'', s5)"
    unfolding buildRelationshipReference_def attributes_def [symmetric]
    by (simp add: g1 g2 g3 g4 g5 a split: option.splits RelationshipDirections.splits)
  show ?thesis
    by (simp add: g1 g2 g3 g4 r n)
qed

text \<open>The statement at the nodes \<open>car\<close> and \<open>prop\<close> of a fresh builder, direction \<open>to\<close>.\<close>

theorem bare_relationship_arrow_witness:
  "(case None :: int NodeSelector option of
      None \<Rightarrow> True | Some a \<Rightarrow> label a = None \<and> variable a = None) \<and>
   fst (buildRelationshipReference
          \<lparr>label = None, variable = Some ''car'', properties = None\<rparr>
          \<lparr>label = None, variable = Some ''prop'', properties = None\<rparr>
          (Some To) None (new_builder :: int Neo4jQueryBuilder)) = ''(car)<--(prop)'' \<and>
   nodes (snd (buildRelationshipReference
          \<lparr>label = None, variable = Some ''car'', properties = None\<rparr>
          \<lparr>label = None, variable = Some ''prop'', properties = None\<rparr>
          (Some To) None (new_builder :: int Neo4jQueryBuilder))) = []"
proof -
  have h: "case None :: int NodeSelector option of
      None \<Rightarrow> True | Some a \<Rightarrow> label a = None \<and> variable a = None"
    by simp
  have e1: "getNodeVarOrGenerate (Some ''car'') (new_builder :: int Neo4jQueryBuilder) =
              (''car'', new_builder)"
    by code_simp
  have e2: "buildNodeReference ''car'' None None (new_builder :: int Neo4jQueryBuilder) =
              (''car'', new_builder)"
    by code_simp
  have e3: "getNodeVarOrGenerate (Some ''prop'') (new_builder :: int Neo4jQueryBuilder) =
              (''prop'', new_builder)"
    by code_simp
  have e4: "buildNodeReference ''prop'' None None (new_builder :: int Neo4jQueryBuilder) =
              (''prop'', new_builder)"
    by code_simp
  have e5: "nodes (new_builder :: int Neo4jQueryBuilder) = []"
    by (simp add: new_builder_def)
  show ?thesis
    using bare_relationship_arrow [OF h,
        of "\<lparr>label = None, variable = Some ''car'', properties = None\<rparr>" new_builder
           "\<lparr>label = None, variable = Some ''prop'', properties = None\<rparr>" "Some To"]
    by (simp add: e1 e2 e3 e4 e5 case_prod_beta)
qed

text \<open>
  C5 as the specification words it names the bare arrows \<open>--\<close>, \<open>->\<close> and \<open><-\<close>. For
  the direction \<open>from\<close> the code writes \<open>-->\<close>.
\<close>

theorem bare_arrow_counterexample:
  "fst (buildRelationshipReference
          \<lparr>label = None, variable = Some ''car'', properties = None\<rparr>
          \<lparr>label = None, variable = Some ''prop'', properties = None\<rparr>
          (Some From) None (new_builder :: int Neo4jQueryBuilder)) = ''(car)-->(prop)'' \<and>
   fst (buildRelationshipReference
          \<lparr>label = None, variable = Some ''car'', properties = None\<rparr>
          \<lparr>label = None, variable = Some ''prop'', properties = None\<rparr>
          (Some From) None (new_builder :: int Neo4jQueryBuilder))
     \<notin> {''(car)--(prop)'', ''(car)->(prop)'', ''(car)<-(prop)''}"
  by code_simp

text \<open>
  C6. On one builder, from its construction on, the aliases returned by any number of
  consecutive calls of the generator with no variable given are pairwise different,
  whether the callers register them or not. The number of calls is not bounded, so the
  702 calls of the claim are covered.
\<close>

theorem auto_generated_distinct:
  "length (generator_calls regs new_builder) = length regs \<and>
   distinct (generator_calls regs new_builder)"
proof -
  have "inj auto_name" by (rule injI) (rule auto_name_inj)
  then show ?thesis
    by (simp add: generator_calls_auto [OF auto_state_new_builder] distinct_map inj_on_def)
qed

text \<open>
  C7. \<open>build()\<close> leaves the builder as it was, and a second call with no other call in
  between returns the same query and parameters as the first.
\<close>

theorem build_twice:
  "fst (build (snd (build s))) = fst (build s) \<and> snd (build s) = s"
  by (simp add: build_def)


text \<open>
  C10. On a freshly constructed builder, \<open>build()\<close> returns the query \<open>RETURN \<close>, a
  return clause with an empty list of aliases and a space at its end, and no parameters.
\<close>

theorem build_new_builder:
  "fst (build (new_builder :: 'v Neo4jQueryBuilder)) = (''RETURN '', [])"
  by (simp add: build_def new_builder_def js_keys_def)

end
